theory Spec2Isabelle
  imports Main "HOL-Library.Word" "HOL-Library.AList"
begin

section \<open>Data model of tools/ext4slower.py\<close>

text \<open>
  The tool is a Python script that assembles a BPF C program (\<open>bpf_text\<close>) by textual
  replacement of three placeholders and attaches its eight functions to four kernel
  functions. The embedding follows the C text after the replacements: fixed-width
  integers are words, the hash table \<open>entryinfo\<close> is an association list with the
  table's capacity, the perf buffer \<open>events\<close> is the list of submitted records, and
  everything a handler obtains from the kernel (helper results, registers, memory
  reads) is an input of the handler.
\<close>

type_synonym u8 = "8 word"
type_synonym u32 = "32 word"
type_synonym u64 = "64 word"

text \<open>\<open>struct val_t\<close>; \<open>fp\<close> is the address held by the \<open>struct file *\<close>, 0 for NULL.\<close>

record val_t =
  ts :: u64
  offset :: u64
  fp :: u64

text \<open>
  \<open>struct data_t\<close>. The fields \<open>type\<close>, \<open>size\<close>, \<open>offset\<close>, \<open>pid\<close> and \<open>file\<close> carry the
  prefix \<open>data_\<close>, since their plain names are taken.
\<close>

record data_t =
  ts_us :: u64
  data_type :: char
  data_size :: u32
  data_offset :: u64
  delta_us :: u64
  data_pid :: u32
  task :: "u8 list"
  data_file :: "u8 list"

text \<open>
  The script's configuration: \<open>min_ms = int(args.min_ms)\<close> is a Python integer,
  \<open>args.pid\<close> is the decimal text of a process id or absent, \<open>ops\<close> is the address of
  \<open>ext4_file_operations\<close> read from /proc/kallsyms. \<open>max_entries\<close> is the capacity that
  the macro \<open>BPF_HASH\<close> gives the table; the macro is not part of the script, so the
  capacity is a parameter.
\<close>

record session =
  min_ms :: int
  args_pid :: "nat option"
  ops :: u64
  max_entries :: nat

text \<open>\<open>struct qstr\<close>, as far as the program reads it.\<close>

record qstr =
  len :: u32
  name :: u64

text \<open>
  Kernel memory as the program's reads see it. Every dereference of a kernel pointer in
  a BPF program is a probe read, which yields zeros where the address cannot be read,
  so each read is a total function of the address.
\<close>

record kmem =
  f_op :: "u64 \<Rightarrow> u64"
  f_path_dentry :: "u64 \<Rightarrow> u64"
  d_name :: "u64 \<Rightarrow> qstr"
  name_bytes :: "u64 \<Rightarrow> u8 list"

text \<open>
  What one firing of a probe obtains from the kernel: \<open>bpf_get_current_pid_tgid()\<close>,
  \<open>bpf_ktime_get_ns()\<close>, \<open>bpf_get_current_comm\<close>, the return register \<open>PT_REGS_RC(ctx)\<close>
  and the memory at that moment.
\<close>

record ctx =
  pid_tgid :: u64
  ktime_ns :: u64
  comm :: "u8 list"
  rc :: u64
  mem :: kmem

text \<open>The two fields of \<open>struct kiocb\<close> that the read and write entry handlers read.\<close>

record kiocb =
  ki_filp :: u64
  ki_pos :: u64

text \<open>The program's state: the table \<open>entryinfo\<close> and the records submitted to \<open>events\<close>.\<close>

record state =
  entryinfo :: "(u64 \<times> val_t) list"
  events :: "data_t list"

definition init_state :: state where
  "init_state = \<lparr>entryinfo = [], events = []\<rparr>"

section \<open>The hash table\<close>

definition map_lookup :: "(u64 \<times> val_t) list \<Rightarrow> u64 \<Rightarrow> val_t option" where
  "map_lookup m k = map_of m k"

text \<open>
  \<open>entryinfo.update(&id, &val)\<close>: the value of an existing key is replaced; a new key
  is inserted only while the table has room. The handlers ignore the result.
\<close>

definition map_update :: "nat \<Rightarrow> u64 \<Rightarrow> val_t \<Rightarrow> (u64 \<times> val_t) list \<Rightarrow> (u64 \<times> val_t) list" where
  "map_update cap k v m =
     (if k \<in> fst ` set m \<or> length m < cap then AList.update k v m else m)"

definition map_delete :: "u64 \<Rightarrow> (u64 \<times> val_t) list \<Rightarrow> (u64 \<times> val_t) list" where
  "map_delete k m = AList.delete k m"

section \<open>The code replacements\<close>

text \<open>
  \<open>FILTER_PID\<close> becomes \<open>pid != P\<close> when \<open>args.pid\<close> is given and \<open>0\<close> otherwise; \<open>pid\<close> is
  a \<open>u32\<close> and \<open>P\<close> a non-negative decimal literal, so the comparison is one of values.
\<close>

definition FILTER_PID :: "nat option \<Rightarrow> u32 \<Rightarrow> bool" where
  "FILTER_PID p pid = (case p of None \<Rightarrow> False | Some P \<Rightarrow> uint pid \<noteq> int P)"

text \<open>
  \<open>FILTER_US\<close> becomes \<open>0\<close> when \<open>min_ms == 0\<close> and \<open>delta_us <= N\<close> with the decimal
  literal \<open>N = min_ms * 1000\<close> otherwise. \<open>delta_us\<close> is a \<open>u64\<close>: a non-negative literal
  is compared by value, a negative one is first converted to \<open>u64\<close>.
\<close>

definition FILTER_US :: "int \<Rightarrow> u64 \<Rightarrow> bool" where
  "FILTER_US m d =
     (if m = 0 then False
      else if 0 < m then uint d \<le> m * 1000
      else d \<le> word_of_int (m * 1000))"

section \<open>Entry handlers\<close>

text \<open>\<open>u32 pid = id >> 32\<close>.\<close>

definition pid_of :: "u64 \<Rightarrow> u32" where
  "pid_of i = ucast (drop_bit 32 i)"

definition trace_read_entry :: "session \<Rightarrow> ctx \<Rightarrow> kiocb \<Rightarrow> state \<Rightarrow> state" where
  "trace_read_entry cfg c iocb s =
     (let i = pid_tgid c; pid = pid_of i in
      if FILTER_PID (args_pid cfg) pid then s
      else
        let filp = ki_filp iocb in
        if f_op (mem c) filp \<noteq> ops cfg then s
        else
          let val = \<lparr>ts = ktime_ns c, offset = ki_pos iocb, fp = filp\<rparr> in
          if fp val \<noteq> 0
          then s\<lparr>entryinfo := map_update (max_entries cfg) i val (entryinfo s)\<rparr>
          else s)"

definition trace_write_entry :: "session \<Rightarrow> ctx \<Rightarrow> kiocb \<Rightarrow> state \<Rightarrow> state" where
  "trace_write_entry cfg c iocb s =
     (let i = pid_tgid c; pid = pid_of i in
      if FILTER_PID (args_pid cfg) pid then s
      else
        let val = \<lparr>ts = ktime_ns c, offset = ki_pos iocb, fp = ki_filp iocb\<rparr> in
        if fp val \<noteq> 0
        then s\<lparr>entryinfo := map_update (max_entries cfg) i val (entryinfo s)\<rparr>
        else s)"

text \<open>The \<open>inode\<close> argument of \<open>trace_open_entry\<close> is not used by the handler.\<close>

definition trace_open_entry :: "session \<Rightarrow> ctx \<Rightarrow> u64 \<Rightarrow> u64 \<Rightarrow> state \<Rightarrow> state" where
  "trace_open_entry cfg c inode file s =
     (let i = pid_tgid c; pid = pid_of i in
      if FILTER_PID (args_pid cfg) pid then s
      else
        let val = \<lparr>ts = ktime_ns c, offset = 0, fp = file\<rparr> in
        if fp val \<noteq> 0
        then s\<lparr>entryinfo := map_update (max_entries cfg) i val (entryinfo s)\<rparr>
        else s)"

definition trace_fsync_entry :: "session \<Rightarrow> ctx \<Rightarrow> u64 \<Rightarrow> state \<Rightarrow> state" where
  "trace_fsync_entry cfg c file s =
     (let i = pid_tgid c; pid = pid_of i in
      if FILTER_PID (args_pid cfg) pid then s
      else
        let val = \<lparr>ts = ktime_ns c, offset = 0, fp = file\<rparr> in
        if fp val \<noteq> 0
        then s\<lparr>entryinfo := map_update (max_entries cfg) i val (entryinfo s)\<rparr>
        else s)"

section \<open>Return handlers\<close>

text \<open>
  \<open>trace_return\<close>. The record found by the lookup is read through \<open>valp\<close> also after the
  key has been deleted; in this sequential model it still holds the values found.
\<close>

definition trace_return :: "session \<Rightarrow> ctx \<Rightarrow> char \<Rightarrow> state \<Rightarrow> state" where
  "trace_return cfg c type s =
     (let i = pid_tgid c; pid = pid_of i in
      case map_lookup (entryinfo s) i of
        None \<Rightarrow> s
      | Some valp \<Rightarrow>
          let t = ktime_ns c;
              d = (t - ts valp) div 1000;
              s1 = s\<lparr>entryinfo := map_delete i (entryinfo s)\<rparr>
          in
          if FILTER_US (min_ms cfg) d then s1
          else
            let data = \<lparr>ts_us = t div 1000, data_type = type, data_size = ucast (rc c),
                        data_offset = offset valp, delta_us = d, data_pid = pid,
                        task = comm c, data_file = []\<rparr>;
                de = f_path_dentry (mem c) (fp valp);
                qs = d_name (mem c) de
            in
            if len qs = 0 then s1
            else s1\<lparr>events := events s1 @ [data\<lparr>data_file := name_bytes (mem c) (name qs)\<rparr>]\<rparr>)"

definition trace_read_return :: "session \<Rightarrow> ctx \<Rightarrow> state \<Rightarrow> state" where
  "trace_read_return cfg c s = trace_return cfg c CHR ''R'' s"

definition trace_write_return :: "session \<Rightarrow> ctx \<Rightarrow> state \<Rightarrow> state" where
  "trace_write_return cfg c s = trace_return cfg c CHR ''W'' s"

definition trace_open_return :: "session \<Rightarrow> ctx \<Rightarrow> state \<Rightarrow> state" where
  "trace_open_return cfg c s = trace_return cfg c CHR ''O'' s"

definition trace_fsync_return :: "session \<Rightarrow> ctx \<Rightarrow> state \<Rightarrow> state" where
  "trace_fsync_return cfg c s = trace_return cfg c CHR ''S'' s"

section \<open>Attached probes\<close>

text \<open>
  The script attaches one entry and one return handler to each of the four kernel
  functions. A probe firing carries what the handler receives; \<open>fire\<close> calls the handler
  attached to it, and \<open>run\<close> fires a sequence of probes in order.
\<close>

datatype probe =
    Read_entry ctx kiocb
  | Write_entry ctx kiocb
  | Open_entry ctx u64 u64
  | Fsync_entry ctx u64
  | Read_return ctx
  | Write_return ctx
  | Open_return ctx
  | Fsync_return ctx

fun fire :: "session \<Rightarrow> probe \<Rightarrow> state \<Rightarrow> state" where
  "fire cfg (Read_entry c iocb) s = trace_read_entry cfg c iocb s"
| "fire cfg (Write_entry c iocb) s = trace_write_entry cfg c iocb s"
| "fire cfg (Open_entry c inode file) s = trace_open_entry cfg c inode file s"
| "fire cfg (Fsync_entry c file) s = trace_fsync_entry cfg c file s"
| "fire cfg (Read_return c) s = trace_read_return cfg c s"
| "fire cfg (Write_return c) s = trace_write_return cfg c s"
| "fire cfg (Open_return c) s = trace_open_return cfg c s"
| "fire cfg (Fsync_return c) s = trace_fsync_return cfg c s"

fun run :: "session \<Rightarrow> probe list \<Rightarrow> state \<Rightarrow> state" where
  "run cfg [] s = s"
| "run cfg (p # ps) s = run cfg ps (fire cfg p s)"

fun probe_ctx :: "probe \<Rightarrow> ctx" where
  "probe_ctx (Read_entry c iocb) = c"
| "probe_ctx (Write_entry c iocb) = c"
| "probe_ctx (Open_entry c inode file) = c"
| "probe_ctx (Fsync_entry c file) = c"
| "probe_ctx (Read_return c) = c"
| "probe_ctx (Write_return c) = c"
| "probe_ctx (Open_return c) = c"
| "probe_ctx (Fsync_return c) = c"

fun is_entry :: "probe \<Rightarrow> bool" where
  "is_entry (Read_entry c iocb) = True"
| "is_entry (Write_entry c iocb) = True"
| "is_entry (Open_entry c inode file) = True"
| "is_entry (Fsync_entry c file) = True"
| "is_entry p = False"

section \<open>Vocabulary for statements about probes\<close>

definition probe_id :: "probe \<Rightarrow> u64" where
  "probe_id p = pid_tgid (probe_ctx p)"

text \<open>
  The record an entry handler fills in before the update (\<open>struct val_t val = {}\<close> and
  the three assignments). Return probes build none; the zero record stands there.
\<close>

fun entry_val :: "probe \<Rightarrow> val_t" where
  "entry_val (Read_entry c iocb) = \<lparr>ts = ktime_ns c, offset = ki_pos iocb, fp = ki_filp iocb\<rparr>"
| "entry_val (Write_entry c iocb) = \<lparr>ts = ktime_ns c, offset = ki_pos iocb, fp = ki_filp iocb\<rparr>"
| "entry_val (Open_entry c inode file) = \<lparr>ts = ktime_ns c, offset = 0, fp = file\<rparr>"
| "entry_val (Fsync_entry c file) = \<lparr>ts = ktime_ns c, offset = 0, fp = file\<rparr>"
| "entry_val p = \<lparr>ts = 0, offset = 0, fp = 0\<rparr>"

text \<open>
  The checks an entry handler makes on its target: the handle is not NULL, and for the
  read handler the file's operation table is the one of ext4.
\<close>

fun target_ok :: "session \<Rightarrow> probe \<Rightarrow> bool" where
  "target_ok cfg (Read_entry c iocb) = (f_op (mem c) (ki_filp iocb) = ops cfg \<and> ki_filp iocb \<noteq> 0)"
| "target_ok cfg (Write_entry c iocb) = (ki_filp iocb \<noteq> 0)"
| "target_ok cfg (Open_entry c inode file) = (file \<noteq> 0)"
| "target_ok cfg (Fsync_entry c file) = (file \<noteq> 0)"
| "target_ok cfg p = False"

definition accepted :: "session \<Rightarrow> probe \<Rightarrow> bool" where
  "accepted cfg p = (\<not> FILTER_PID (args_pid cfg) (pid_of (probe_id p)) \<and> target_ok cfg p)"

text \<open>The name length that \<open>trace_return\<close> reads for a stored handle.\<close>

definition name_len :: "kmem \<Rightarrow> u64 \<Rightarrow> u32" where
  "name_len m a = len (d_name m (f_path_dentry m a))"

text \<open>Properties of a table: no key twice, and no NULL handle in a record.\<close>

definition one_record_per_id :: "state \<Rightarrow> bool" where
  "one_record_per_id s = distinct (map fst (entryinfo s))"

definition handles_valid :: "state \<Rightarrow> bool" where
  "handles_valid s = list_all (\<lambda>kv. fp (snd kv) \<noteq> 0) (entryinfo s)"

section \<open>Inputs used in the examples\<close>

definition mem_ex :: kmem where
  "mem_ex = \<lparr>f_op = (\<lambda>a. 7), f_path_dentry = (\<lambda>a. 16), d_name = (\<lambda>a. \<lparr>len = 3, name = 32\<rparr>),
             name_bytes = (\<lambda>a. [97, 98, 99])\<rparr>"

definition cfg_all :: session where
  "cfg_all = \<lparr>min_ms = 0, args_pid = None, ops = 7, max_entries = 10240\<rparr>"

definition ctx_ex :: "u64 \<Rightarrow> u64 \<Rightarrow> ctx" where
  "ctx_ex i t = \<lparr>pid_tgid = i, ktime_ns = t, comm = [], rc = 0, mem = mem_ex\<rparr>"

section \<open>Return without a record\<close>

text \<open>
  C4. A return handler whose id has no record in \<open>entryinfo\<close> submits nothing and leaves
  the table, and so the whole state, as it was.
\<close>

theorem return_without_record:
  "map_lookup (entryinfo s) (pid_tgid c) = None \<Longrightarrow> trace_return cfg c type s = s"
  by (simp add: trace_return_def)

theorem return_without_record_witness:
  "map_lookup (entryinfo init_state) (pid_tgid (ctx_ex 5 100)) = None
   \<and> trace_return cfg_all (ctx_ex 5 100) CHR ''R'' init_state = init_state"
proof -
  have h: "map_lookup (entryinfo init_state) (pid_tgid (ctx_ex 5 100)) = None"
    by (simp add: map_lookup_def init_state_def)
  show ?thesis using h return_without_record [OF h] by simp
qed

end
